theory Spec2Isabelle
  imports Main "HOL-Library.Word"
begin

section \<open>Values crossing the API boundary\<close>

text \<open>
  \<^verbatim>\<open>uuid.UUID\<close> is a 16-byte array; the zero value \<^verbatim>\<open>uuid.Nil\<close> is what an
  \<^verbatim>\<open>ActiveDeployID\<close> field holds while no deploy was ever activated.
\<close>

type_synonym uuid = "128 word"

type_synonym byte = "8 word"

definition uuid_Nil :: uuid where
  "uuid_Nil = 0"

text \<open>
  Go errors. \<^verbatim>\<open>ErrDecodeRequestBody\<close> is the sentinel of package api,
  \<^verbatim>\<open>Errorf\<close> is \<^verbatim>\<open>fmt.Errorf\<close> with its message, \<^verbatim>\<open>LibraryError\<close> stands for
  what \<^verbatim>\<open>uuid.Parse\<close>, \<^verbatim>\<open>io.ReadAll\<close> and the JSON decoder return, and the
  last four are the failures of the two collaborators.
\<close>

datatype error =
    ErrDecodeRequestBody
  | Errorf string
  | LibraryError string
  | ErrNotFound
  | ErrExists
  | ErrStore
  | ErrCache

datatype status =
    StatusOK
  | StatusBadRequest
  | StatusNotFound
  | StatusUnprocessableEntity

text \<open>
  Modelled from the spec: \<^verbatim>\<open>types.Application\<close> (section 3, Application): id, name,
  environment, endpoint and the active deploy pointer.
\<close>

record Application =
  app_ID :: uuid
  app_Name :: string
  app_Environment :: "string \<rightharpoonup> string"
  app_Endpoint :: string
  app_ActiveDeployID :: uuid

text \<open>
  Modelled from the spec: \<^verbatim>\<open>types.Deploy\<close> (section 3, Deploy): id, owning
  application, payload and creation time.
\<close>

record Deploy =
  deploy_ID :: uuid
  deploy_AppID :: uuid
  deploy_Blob :: "byte list"
  deploy_CreatedAt :: nat

record CreateAppParams =
  Name :: string
  Environment :: "string \<rightharpoonup> string"

record CreateRollbackParams =
  DeployID :: uuid

text \<open>
  Modelled from the spec: \<^verbatim>\<open>storage.UpdateAppParams\<close> (section 6,
  UpdateApplication: a partial update carrying the active deploy id).
\<close>

record UpdateAppParams =
  ActiveDeployID :: uuid

text \<open>
  What the handlers read from a request, each field the result of the library call the
  handler makes on it: \<^verbatim>\<open>uuid.Parse(chi.URLParam(r, "appID"))\<close>,
  \<^verbatim>\<open>io.ReadAll(r.Body)\<close>, and \<^verbatim>\<open>json.NewDecoder(r.Body).Decode\<close> into the
  parameter struct of the handler.
\<close>

record Request =
  URLParam_appID :: "error + uuid"
  ReadAll_Body :: "error + byte list"
  Decode_CreateAppParams :: "error + CreateAppParams"
  Decode_CreateRollbackParams :: "error + CreateRollbackParams"

text \<open>
  What the constructors of package types draw from their surroundings: the fresh
  identifier of \<^verbatim>\<open>uuid.New()\<close>, the clock, and \<^verbatim>\<open>config.GetWasmUrl()\<close>.
\<close>

record Env =
  uuid_New :: uuid
  time_Now :: nat
  GetWasmUrl :: string

datatype json =
    ErrorResponse error
  | ApplicationJSON Application
  | DeployJSON Deploy
  | RollbackJSON uuid

record Response =
  Status :: status
  Payload :: json

definition writeJSON :: "status \<Rightarrow> json \<Rightarrow> Response" where
  "writeJSON st v = \<lparr>Status = st, Payload = v\<rparr>"

section \<open>The Store\<close>

text \<open>
  Modelled from the spec: \<^verbatim>\<open>storage.Store\<close> (section 6, Store contract). The
  applications and the deploys are kept by id; \<open>failing\<close> lists the operations that
  answer with the generic store error, which the contract allows each of them to do.
  A failed operation leaves the store as it was.
\<close>

datatype store_op =
    OpCreateApplication
  | OpGetApplication
  | OpUpdateApplication
  | OpCreateDeploy
  | OpGetDeploy

record Store =
  apps :: "uuid \<rightharpoonup> Application"
  deploys :: "uuid \<rightharpoonup> Deploy"
  failing :: "store_op set"

definition CreateApplication :: "Store \<Rightarrow> Application \<Rightarrow> error + Store" where
  "CreateApplication st app =
     (if OpCreateApplication \<in> failing st then Inl ErrStore
      else case apps st (app_ID app) of
             Some _ \<Rightarrow> Inl ErrExists
           | None \<Rightarrow> Inr (st\<lparr>apps := (apps st)(app_ID app \<mapsto> app)\<rparr>))"

definition GetApplication :: "Store \<Rightarrow> uuid \<Rightarrow> error + Application" where
  "GetApplication st appID =
     (if OpGetApplication \<in> failing st then Inl ErrStore
      else case apps st appID of
             None \<Rightarrow> Inl ErrNotFound
           | Some app \<Rightarrow> Inr app)"

definition UpdateApplication :: "Store \<Rightarrow> uuid \<Rightarrow> UpdateAppParams \<Rightarrow> error + Store" where
  "UpdateApplication st appID params =
     (if OpUpdateApplication \<in> failing st then Inl ErrStore
      else case apps st appID of
             None \<Rightarrow> Inl ErrNotFound
           | Some app \<Rightarrow>
               Inr (st\<lparr>apps := (apps st)(appID \<mapsto>
                      app\<lparr>app_ActiveDeployID := ActiveDeployID params\<rparr>)\<rparr>))"

definition CreateDeploy :: "Store \<Rightarrow> Deploy \<Rightarrow> error + Store" where
  "CreateDeploy st deploy =
     (if OpCreateDeploy \<in> failing st then Inl ErrStore
      else case deploys st (deploy_ID deploy) of
             Some _ \<Rightarrow> Inl ErrExists
           | None \<Rightarrow> Inr (st\<lparr>deploys := (deploys st)(deploy_ID deploy \<mapsto> deploy)\<rparr>))"

definition GetDeploy :: "Store \<Rightarrow> uuid \<Rightarrow> error + Deploy" where
  "GetDeploy st deployID =
     (if OpGetDeploy \<in> failing st then Inl ErrStore
      else case deploys st deployID of
             None \<Rightarrow> Inl ErrNotFound
           | Some deploy \<Rightarrow> Inr deploy)"

section \<open>The Cache\<close>

text \<open>
  Modelled from the spec: \<^verbatim>\<open>storage.ModCacher\<close> (section 6, Cache contract, and
  section 7, CacheError). \<open>Delete\<close> evicts the entry of a deploy id and is a no-op when
  there is none; a cache whose eviction fails keeps its entries and reports the error.
\<close>

record ModCacher =
  entries :: "uuid \<rightharpoonup> byte list"
  evict_fails :: bool

definition Delete :: "ModCacher \<Rightarrow> uuid \<Rightarrow> error option \<times> ModCacher" where
  "Delete c deployID =
     (if evict_fails c then (Some ErrCache, c)
      else (None, c\<lparr>entries := (entries c)(deployID := None)\<rparr>))"

section \<open>The constructors of package types\<close>

text \<open>
  Modelled from the spec: \<^verbatim>\<open>types.NewApplication\<close> (section 3, lifecycle: an
  application is created with a generated id and no active deploy; the handler sets
  the endpoint afterwards).
\<close>

definition NewApplication :: "Env \<Rightarrow> string \<Rightarrow> (string \<rightharpoonup> string) \<Rightarrow> Application" where
  "NewApplication env name environment =
     \<lparr>app_ID = uuid_New env, app_Name = name, app_Environment = environment,
      app_Endpoint = [], app_ActiveDeployID = uuid_Nil\<rparr>"

text \<open>
  Modelled from the spec: \<^verbatim>\<open>types.NewDeploy\<close> (section 4.2, step 2: a new Deploy
  bound to the application, with the given payload and a generated id).
\<close>

definition NewDeploy :: "Env \<Rightarrow> Application \<Rightarrow> byte list \<Rightarrow> Deploy" where
  "NewDeploy env app b =
     \<lparr>deploy_ID = uuid_New env, deploy_AppID = app_ID app, deploy_Blob = b,
      deploy_CreatedAt = time_Now env\<rparr>"

text \<open>
  \<^verbatim>\<open>uuid.UUID.String()\<close>, needed for the endpoint only: the 32 hexadecimal digits of
  the identifier, most significant first, with hyphens after the 8th, 12th, 16th and
  20th.
\<close>

definition hex_digit :: "nat \<Rightarrow> char" where
  "hex_digit n = ''0123456789abcdef'' ! (n mod 16)"

definition uuid_String :: "uuid \<Rightarrow> string" where
  "uuid_String u =
     (let ds = map (\<lambda>i. hex_digit (unat (drop_bit (4 * (31 - i)) u) mod 16)) [0..<32]
      in take 8 ds @ ''-'' @ take 4 (drop 8 ds) @ ''-'' @ take 4 (drop 12 ds) @ ''-''
         @ take 4 (drop 16 ds) @ ''-'' @ drop 20 ds)"

section \<open>The server\<close>

text \<open>
  The server holds its two collaborators. \<open>calls\<close> is the history of the calls the
  handlers made on them, oldest first; it is there to state which collaborator a
  handler touched and in which order, and no handler reads it.
\<close>

datatype call =
    StoreCreateApplication uuid
  | StoreGetApplication uuid
  | StoreUpdateApplication uuid uuid
  | StoreCreateDeploy uuid
  | StoreGetDeploy uuid
  | CacheDelete uuid

fun is_cache_call :: "call \<Rightarrow> bool" where
  "is_cache_call (CacheDelete _) = True"
| "is_cache_call _ = False"

record Server =
  store :: Store
  cache :: ModCacher
  calls :: "call list"

definition store_CreateApplication :: "Server \<Rightarrow> Application \<Rightarrow> error option \<times> Server" where
  "store_CreateApplication s app =
     (let s' = s\<lparr>calls := calls s @ [StoreCreateApplication (app_ID app)]\<rparr>
      in case CreateApplication (store s) app of
           Inl err \<Rightarrow> (Some err, s')
         | Inr st \<Rightarrow> (None, s'\<lparr>store := st\<rparr>))"

definition store_GetApplication :: "Server \<Rightarrow> uuid \<Rightarrow> (error + Application) \<times> Server" where
  "store_GetApplication s appID =
     (GetApplication (store s) appID, s\<lparr>calls := calls s @ [StoreGetApplication appID]\<rparr>)"

definition store_UpdateApplication ::
    "Server \<Rightarrow> uuid \<Rightarrow> UpdateAppParams \<Rightarrow> error option \<times> Server" where
  "store_UpdateApplication s appID params =
     (let s' = s\<lparr>calls := calls s @ [StoreUpdateApplication appID (ActiveDeployID params)]\<rparr>
      in case UpdateApplication (store s) appID params of
           Inl err \<Rightarrow> (Some err, s')
         | Inr st \<Rightarrow> (None, s'\<lparr>store := st\<rparr>))"

definition store_CreateDeploy :: "Server \<Rightarrow> Deploy \<Rightarrow> error option \<times> Server" where
  "store_CreateDeploy s deploy =
     (let s' = s\<lparr>calls := calls s @ [StoreCreateDeploy (deploy_ID deploy)]\<rparr>
      in case CreateDeploy (store s) deploy of
           Inl err \<Rightarrow> (Some err, s')
         | Inr st \<Rightarrow> (None, s'\<lparr>store := st\<rparr>))"

definition store_GetDeploy :: "Server \<Rightarrow> uuid \<Rightarrow> (error + Deploy) \<times> Server" where
  "store_GetDeploy s deployID =
     (GetDeploy (store s) deployID, s\<lparr>calls := calls s @ [StoreGetDeploy deployID]\<rparr>)"

text \<open>
  \<^verbatim>\<open>s.cache.Delete(id)\<close> as a statement: whatever the cache reports is dropped.
\<close>

definition cache_Delete :: "Server \<Rightarrow> uuid \<Rightarrow> Server" where
  "cache_Delete s deployID =
     s\<lparr>cache := snd (Delete (cache s) deployID),
       calls := calls s @ [CacheDelete deployID]\<rparr>"

section \<open>The handlers of server.go\<close>

definition validate_message :: string where
  "validate_message =
     ''name of the application should be longer than 3 and less than 40 characters''"

definition validate :: "CreateAppParams \<Rightarrow> error option" where
  "validate p =
     (if length (Name p) < 3 \<or> length (Name p) > 20
      then Some (Errorf validate_message)
      else None)"

definition handleCreateApp :: "Env \<Rightarrow> Server \<Rightarrow> Request \<Rightarrow> Response \<times> Server" where
  "handleCreateApp env s r =
     (case Decode_CreateAppParams r of
        Inl err \<Rightarrow> (writeJSON StatusBadRequest (ErrorResponse ErrDecodeRequestBody), s)
      | Inr params \<Rightarrow>
          (case validate params of
             Some err \<Rightarrow> (writeJSON StatusBadRequest (ErrorResponse err), s)
           | None \<Rightarrow>
               (let app0 = NewApplication env (Name params) (Environment params);
                    app = app0\<lparr>app_Endpoint :=
                            GetWasmUrl env @ ''/'' @ uuid_String (app_ID app0)\<rparr>
                in case store_CreateApplication s app of
                     (Some err, s1) \<Rightarrow> (writeJSON StatusBadRequest (ErrorResponse err), s1)
                   | (None, s1) \<Rightarrow> (writeJSON StatusOK (ApplicationJSON app), s1))))"

definition handleCreateDeploy :: "Env \<Rightarrow> Server \<Rightarrow> Request \<Rightarrow> Response \<times> Server" where
  "handleCreateDeploy env s r =
     (case URLParam_appID r of
        Inl err \<Rightarrow> (writeJSON StatusBadRequest (ErrorResponse err), s)
      | Inr appID \<Rightarrow>
          (case store_GetApplication s appID of
             (Inl err, s1) \<Rightarrow> (writeJSON StatusNotFound (ErrorResponse err), s1)
           | (Inr app, s1) \<Rightarrow>
               (case ReadAll_Body r of
                  Inl err \<Rightarrow> (writeJSON StatusNotFound (ErrorResponse err), s1)
                | Inr b \<Rightarrow>
                    (let deploy = NewDeploy env app b
                     in case store_CreateDeploy s1 deploy of
                          (Some err, s2) \<Rightarrow>
                            (writeJSON StatusUnprocessableEntity (ErrorResponse err), s2)
                        | (None, s2) \<Rightarrow>
                            (case store_UpdateApplication s2 appID
                                    \<lparr>ActiveDeployID = deploy_ID deploy\<rparr> of
                               (Some err, s3) \<Rightarrow>
                                 (writeJSON StatusUnprocessableEntity (ErrorResponse err), s3)
                             | (None, s3) \<Rightarrow>
                                 (writeJSON StatusOK (DeployJSON deploy), s3))))))"

definition handleGetApplication :: "Server \<Rightarrow> Request \<Rightarrow> Response \<times> Server" where
  "handleGetApplication s r =
     (case URLParam_appID r of
        Inl err \<Rightarrow> (writeJSON StatusBadRequest (ErrorResponse err), s)
      | Inr appID \<Rightarrow>
          (case store_GetApplication s appID of
             (Inl err, s1) \<Rightarrow> (writeJSON StatusNotFound (ErrorResponse err), s1)
           | (Inr app, s1) \<Rightarrow> (writeJSON StatusOK (ApplicationJSON app), s1)))"

definition handleCreateRollback :: "Server \<Rightarrow> Request \<Rightarrow> Response \<times> Server" where
  "handleCreateRollback s r =
     (case URLParam_appID r of
        Inl err \<Rightarrow> (writeJSON StatusBadRequest (ErrorResponse err), s)
      | Inr appID \<Rightarrow>
          (case store_GetApplication s appID of
             (Inl err, s1) \<Rightarrow> (writeJSON StatusBadRequest (ErrorResponse err), s1)
           | (Inr app, s1) \<Rightarrow>
               (let currentDeployID = app_ActiveDeployID app
                in case Decode_CreateRollbackParams r of
                     Inl err \<Rightarrow> (writeJSON StatusBadRequest (ErrorResponse err), s1)
                   | Inr params \<Rightarrow>
                       (case store_GetDeploy s1 (DeployID params) of
                          (Inl err, s2) \<Rightarrow> (writeJSON StatusNotFound (ErrorResponse err), s2)
                        | (Inr deploy, s2) \<Rightarrow>
                            (let updateParams = \<lparr>ActiveDeployID = deploy_ID deploy\<rparr>
                             in case store_UpdateApplication s2 appID updateParams of
                                  (Some err, s3) \<Rightarrow>
                                    (writeJSON StatusBadRequest (ErrorResponse err), s3)
                                | (None, s3) \<Rightarrow>
                                    (let s4 = cache_Delete s3 currentDeployID
                                     in (writeJSON StatusOK (RollbackJSON (deploy_ID deploy)),
                                         s4)))))))"

section \<open>Reading the bound that a message states\<close>

text \<open>
  The number that follows the words "less than " in a message, read as a decimal
  numeral. It serves to compare what the message of \<open>validate\<close> says with what the
  check of \<open>validate\<close> enforces.
\<close>

fun after_infix :: "string \<Rightarrow> string \<Rightarrow> string option" where
  "after_infix pat [] = (if pat = [] then Some [] else None)"
| "after_infix pat (c # cs) =
     (if take (length pat) (c # cs) = pat then Some (drop (length pat) (c # cs))
      else after_infix pat cs)"

definition is_digit :: "char \<Rightarrow> bool" where
  "is_digit c = (48 \<le> (of_char c :: nat) \<and> (of_char c :: nat) \<le> 57)"

fun read_nat :: "nat \<Rightarrow> string \<Rightarrow> nat" where
  "read_nat acc [] = acc"
| "read_nat acc (c # cs) =
     (if is_digit c then read_nat (10 * acc + (of_char c - 48)) cs else acc)"

definition leading_number :: "string \<Rightarrow> nat option" where
  "leading_number cs =
     (case cs of [] \<Rightarrow> None
      | c # _ \<Rightarrow> if is_digit c then Some (read_nat 0 cs) else None)"

definition stated_upper_bound :: "string \<Rightarrow> nat option" where
  "stated_upper_bound msg =
     (case after_infix ''less than '' msg of
        None \<Rightarrow> None
      | Some rest \<Rightarrow> leading_number rest)"

section \<open>A small deployment, for the concrete runs\<close>

text \<open>
  Two applications: application 1 owns the deploys 11 and 12 and runs 12, application
  2 owns deploy 20 and runs it. The cache holds an artifact for each deploy.
\<close>

definition appA :: Application where
  "appA = \<lparr>app_ID = 1, app_Name = ''alpha'', app_Environment = Map.empty,
            app_Endpoint = ''http://wasm/1'', app_ActiveDeployID = 12\<rparr>"

definition appB :: Application where
  "appB = \<lparr>app_ID = 2, app_Name = ''beta'', app_Environment = Map.empty,
            app_Endpoint = ''http://wasm/2'', app_ActiveDeployID = 20\<rparr>"

definition deploy11 :: Deploy where
  "deploy11 = \<lparr>deploy_ID = 11, deploy_AppID = 1, deploy_Blob = [1],
                deploy_CreatedAt = 100\<rparr>"

definition deploy12 :: Deploy where
  "deploy12 = \<lparr>deploy_ID = 12, deploy_AppID = 1, deploy_Blob = [2],
                deploy_CreatedAt = 200\<rparr>"

definition deploy20 :: Deploy where
  "deploy20 = \<lparr>deploy_ID = 20, deploy_AppID = 2, deploy_Blob = [3],
                deploy_CreatedAt = 150\<rparr>"

definition store0 :: Store where
  "store0 = \<lparr>apps = [1 \<mapsto> appA, 2 \<mapsto> appB],
              deploys = [11 \<mapsto> deploy11, 12 \<mapsto> deploy12, 20 \<mapsto> deploy20],
              failing = {}\<rparr>"

definition cache0 :: ModCacher where
  "cache0 = \<lparr>entries = [11 \<mapsto> [7], 12 \<mapsto> [8], 20 \<mapsto> [9]], evict_fails = False\<rparr>"

definition server0 :: Server where
  "server0 = \<lparr>store = store0, cache = cache0, calls = []\<rparr>"

definition env0 :: Env where
  "env0 = \<lparr>uuid_New = 13, time_Now = 300, GetWasmUrl = ''http://wasm''\<rparr>"

text \<open>A rollback request for an application, naming the target deploy in its body.\<close>

definition rollback_request :: "uuid \<Rightarrow> uuid \<Rightarrow> Request" where
  "rollback_request appID deployID =
     \<lparr>URLParam_appID = Inr appID, ReadAll_Body = Inr [],
      Decode_CreateAppParams = Inl (LibraryError ''json''),
      Decode_CreateRollbackParams = Inr \<lparr>DeployID = deployID\<rparr>\<rparr>"

text \<open>A deploy request for an application, with what reading its body gives.\<close>

definition deploy_request :: "uuid \<Rightarrow> error + byte list \<Rightarrow> Request" where
  "deploy_request appID body =
     \<lparr>URLParam_appID = Inr appID, ReadAll_Body = body,
      Decode_CreateAppParams = Inl (LibraryError ''json''),
      Decode_CreateRollbackParams = Inl (LibraryError ''json'')\<rparr>"

definition create_app_request :: "string \<Rightarrow> Request" where
  "create_app_request name =
     \<lparr>URLParam_appID = Inl (LibraryError ''uuid''), ReadAll_Body = Inr [],
      Decode_CreateAppParams = Inr \<lparr>Name = name, Environment = Map.empty\<rparr>,
      Decode_CreateRollbackParams = Inl (LibraryError ''json'')\<rparr>"

section \<open>Facts about the collaborators\<close>

lemma writeJSON_sel [simp]:
  "Status (writeJSON st v) = st" "Payload (writeJSON st v) = v"
  by (simp_all add: writeJSON_def)

lemma GetApplication_Inr:
  assumes "GetApplication st appID = Inr app"
  shows "apps st appID = Some app" and "OpGetApplication \<notin> failing st"
  using assms by (auto simp: GetApplication_def split: if_splits option.splits)

lemma GetDeploy_absent:
  assumes "deploys st deployID = None"
  shows "\<exists>err. GetDeploy st deployID = Inl err"
  using assms by (simp add: GetDeploy_def)

lemma CreateDeploy_Inr:
  assumes "CreateDeploy st d = Inr st'"
  shows "st' = st\<lparr>deploys := (deploys st)(deploy_ID d \<mapsto> d)\<rparr>"
  using assms by (auto simp: CreateDeploy_def split: if_splits option.splits)


lemma UpdateApplication_present:
  assumes "apps st appID = Some app" and "OpUpdateApplication \<notin> failing st"
  shows "UpdateApplication st appID params =
           Inr (st\<lparr>apps := (apps st)(appID \<mapsto>
                  app\<lparr>app_ActiveDeployID := ActiveDeployID params\<rparr>)\<rparr>)"
  using assms by (simp add: UpdateApplication_def)

text \<open>The two lookups at the server level: the store's answer, and the call recorded.\<close>

lemma store_GetApplication_eq:
  "store_GetApplication s appID =
     (GetApplication (store s) appID, s\<lparr>calls := calls s @ [StoreGetApplication appID]\<rparr>)"
  by (simp add: store_GetApplication_def)

lemma store_GetDeploy_eq:
  "store_GetDeploy s deployID =
     (GetDeploy (store s) deployID, s\<lparr>calls := calls s @ [StoreGetDeploy deployID]\<rparr>)"
  by (simp add: store_GetDeploy_def)

lemmas collaborator_defs =
  store_CreateApplication_def store_GetApplication_def store_UpdateApplication_def
  store_CreateDeploy_def store_GetDeploy_def cache_Delete_def
  CreateApplication_def GetApplication_def UpdateApplication_def CreateDeploy_def
  GetDeploy_def Delete_def

lemmas deployment_defs =
  appA_def appB_def deploy11_def deploy12_def deploy20_def store0_def cache0_def
  server0_def env0_def rollback_request_def deploy_request_def create_app_request_def
  NewDeploy_def NewApplication_def

section \<open>The paths of the two versioning handlers\<close>

lemma handleCreateRollback_run:
  assumes "URLParam_appID r = Inr A"
    and "GetApplication (store s) A = Inr app"
    and "Decode_CreateRollbackParams r = Inr p"
    and "GetDeploy (store s) (DeployID p) = Inr d"
  shows "handleCreateRollback s r =
    (case UpdateApplication (store s) A \<lparr>ActiveDeployID = deploy_ID d\<rparr> of
       Inl err \<Rightarrow>
         (writeJSON StatusBadRequest (ErrorResponse err),
          s\<lparr>calls := calls s @ [StoreGetApplication A, StoreGetDeploy (DeployID p),
                                  StoreUpdateApplication A (deploy_ID d)]\<rparr>)
     | Inr st \<Rightarrow>
         (writeJSON StatusOK (RollbackJSON (deploy_ID d)),
          s\<lparr>store := st,
            cache := snd (Delete (cache s) (app_ActiveDeployID app)),
            calls := calls s @ [StoreGetApplication A, StoreGetDeploy (DeployID p),
                                StoreUpdateApplication A (deploy_ID d),
                                CacheDelete (app_ActiveDeployID app)]\<rparr>))"
  using assms
  by (simp add: handleCreateRollback_def store_GetApplication_eq store_GetDeploy_eq
      store_UpdateApplication_def cache_Delete_def Let_def split: sum.split)

lemma handleCreateDeploy_run:
  assumes "URLParam_appID r = Inr A"
    and "GetApplication (store s) A = Inr app"
    and "ReadAll_Body r = Inr b"
    and "CreateDeploy (store s) (NewDeploy env app b) = Inr st1"
  shows "handleCreateDeploy env s r =
    (case UpdateApplication st1 A \<lparr>ActiveDeployID = deploy_ID (NewDeploy env app b)\<rparr> of
       Inl err \<Rightarrow>
         (writeJSON StatusUnprocessableEntity (ErrorResponse err),
          s\<lparr>store := st1,
            calls := calls s @ [StoreGetApplication A,
                                StoreCreateDeploy (deploy_ID (NewDeploy env app b)),
                                StoreUpdateApplication A (deploy_ID (NewDeploy env app b))]\<rparr>)
     | Inr st2 \<Rightarrow>
         (writeJSON StatusOK (DeployJSON (NewDeploy env app b)),
          s\<lparr>store := st2,
            calls := calls s @ [StoreGetApplication A,
                                StoreCreateDeploy (deploy_ID (NewDeploy env app b)),
                                StoreUpdateApplication A (deploy_ID (NewDeploy env app b))]\<rparr>))"
  using assms
  by (simp add: handleCreateDeploy_def store_GetApplication_eq store_CreateDeploy_def
      store_UpdateApplication_def Let_def split: sum.split)

text \<open>A deploy request answered with 200 went through every step.\<close>

lemma handleCreateDeploy_OK:
  assumes "Status (fst (handleCreateDeploy env s r)) = StatusOK"
  obtains A app b st1 st2 where
    "URLParam_appID r = Inr A" "GetApplication (store s) A = Inr app"
    "ReadAll_Body r = Inr b" "CreateDeploy (store s) (NewDeploy env app b) = Inr st1"
    "UpdateApplication st1 A \<lparr>ActiveDeployID = deploy_ID (NewDeploy env app b)\<rparr> = Inr st2"
  using assms
  by (auto simp: handleCreateDeploy_def store_GetApplication_eq store_CreateDeploy_def
      store_UpdateApplication_def Let_def split: sum.splits)

section \<open>Rollback\<close>

text \<open>
  C1. A rollback of an application to a deploy that belongs to another application
  should fail with a validation error and leave the active deploy pointer alone. The
  handler has no such check: on the small deployment, rolling application 1 back to
  deploy 20 (owned by application 2) is answered with 200 and application 1 then runs
  deploy 20.
\<close>

theorem rollback_foreign_deploy_accepted:
  "deploys (store server0) 20 = Some deploy20
   \<and> apps (store server0) 1 = Some appA
   \<and> deploy_AppID deploy20 \<noteq> app_ID appA
   \<and> fst (handleCreateRollback server0 (rollback_request 1 20))
       = writeJSON StatusOK (RollbackJSON 20)
   \<and> map_option app_ActiveDeployID (apps (store server0) 1) = Some 12
   \<and> map_option app_ActiveDeployID
         (apps (store (snd (handleCreateRollback server0 (rollback_request 1 20)))) 1)
       = Some 20
   \<and> calls (snd (handleCreateRollback server0 (rollback_request 1 20)))
       = [StoreGetApplication 1, StoreGetDeploy 20, StoreUpdateApplication 1 20,
          CacheDelete 12]"
  by (simp add: handleCreateRollback_def collaborator_defs deployment_defs)

text \<open>
  C2. Application \<open>A\<close> runs deploy \<open>D2\<close>, and \<open>D1\<close> is a stored deploy. A rollback of
  \<open>A\<close> to \<open>D1\<close> that is answered with 200 returns \<open>D1\<close>, leaves \<open>A\<close> pointing to
  \<open>D1\<close> in the store, and has called the cache's \<open>Delete\<close> with \<open>D2\<close>, the pointer read
  before the update, as the last call after the store's update (so a cache that does
  not fail has no entry for \<open>D2\<close> afterwards). A rollback answered otherwise has
  changed neither the store nor the cache and made no call to the cache. When no
  store operation fails the answer is 200.
\<close>

theorem rollback_correct:
  assumes url: "URLParam_appID r = Inr A"
    and body: "Decode_CreateRollbackParams r = Inr p" "DeployID p = D1"
    and app: "apps (store s) A = Some app" "app_ActiveDeployID app = D2"
    and tgt: "deploys (store s) D1 = Some d1" "deploy_ID d1 = D1"
    and run: "handleCreateRollback s r = (resp, s')"
  shows "(Status resp = StatusOK \<longrightarrow>
            Payload resp = RollbackJSON D1
          \<and> GetApplication (store s') A = Inr (app\<lparr>app_ActiveDeployID := D1\<rparr>)
          \<and> cache s' = snd (Delete (cache s) D2)
          \<and> (\<not> evict_fails (cache s) \<longrightarrow> entries (cache s') D2 = None)
          \<and> calls s' = calls s @ [StoreGetApplication A, StoreGetDeploy D1,
                                   StoreUpdateApplication A D1, CacheDelete D2])
       \<and> (Status resp \<noteq> StatusOK \<longrightarrow>
            store s' = store s \<and> cache s' = cache s
          \<and> filter is_cache_call (calls s') = filter is_cache_call (calls s))
       \<and> (failing (store s) = {} \<longrightarrow> Status resp = StatusOK)"
proof (cases "OpGetApplication \<in> failing (store s) \<or> OpGetDeploy \<in> failing (store s)")
  case True
  with url body run show ?thesis
    by (auto simp: handleCreateRollback_def store_GetApplication_eq store_GetDeploy_eq
        GetApplication_def GetDeploy_def Let_def split: if_splits option.splits)
next
  case False
  with app tgt have get: "GetApplication (store s) A = Inr app"
    and getd: "GetDeploy (store s) (DeployID p) = Inr d1"
    using body by (simp_all add: GetApplication_def GetDeploy_def)
  note path = handleCreateRollback_run [OF url get body(1) getd]
  show ?thesis
  proof (cases "OpUpdateApplication \<in> failing (store s)")
    case True
    then have "UpdateApplication (store s) A \<lparr>ActiveDeployID = deploy_ID d1\<rparr> = Inl ErrStore"
      by (simp add: UpdateApplication_def)
    with path run True show ?thesis by auto
  next
    case False
    from UpdateApplication_present [OF app(1) False]
    have upd: "UpdateApplication (store s) A \<lparr>ActiveDeployID = deploy_ID d1\<rparr>
                 = Inr (store s\<lparr>apps := (apps (store s))(A \<mapsto> app\<lparr>app_ActiveDeployID := D1\<rparr>)\<rparr>)"
      using tgt(2) by simp
    from path run upd have resp: "resp = writeJSON StatusOK (RollbackJSON D1)"
      and s': "s' = s\<lparr>store := store s\<lparr>apps := (apps (store s))(A \<mapsto> app\<lparr>app_ActiveDeployID := D1\<rparr>)\<rparr>,
            cache := snd (Delete (cache s) D2),
            calls := calls s @ [StoreGetApplication A, StoreGetDeploy D1,
                                StoreUpdateApplication A D1, CacheDelete D2]\<rparr>"
      using tgt(2) app(2) body(2) by simp_all
    have "GetApplication (store s') A = Inr (app\<lparr>app_ActiveDeployID := D1\<rparr>)"
      using \<open>\<not> (OpGetApplication \<in> failing (store s) \<or> OpGetDeploy \<in> failing (store s))\<close>
      by (simp add: s' GetApplication_def)
    moreover have "\<not> evict_fails (cache s) \<longrightarrow> entries (cache s') D2 = None"
      by (simp add: s' Delete_def)
    ultimately show ?thesis by (simp add: resp s')
  qed
qed

theorem rollback_correct_witness:
  "URLParam_appID (rollback_request 1 11) = Inr 1
   \<and> Decode_CreateRollbackParams (rollback_request 1 11) = Inr \<lparr>DeployID = 11\<rparr>
   \<and> apps (store server0) 1 = Some appA \<and> app_ActiveDeployID appA = 12
   \<and> deploys (store server0) 11 = Some deploy11 \<and> deploy_ID deploy11 = 11
   \<and> failing (store server0) = {}
   \<and> entries (cache server0) 12 = Some [8]
   \<and> Status (fst (handleCreateRollback server0 (rollback_request 1 11))) = StatusOK
   \<and> Payload (fst (handleCreateRollback server0 (rollback_request 1 11))) = RollbackJSON 11
   \<and> GetApplication (store (snd (handleCreateRollback server0 (rollback_request 1 11)))) 1
       = Inr (appA\<lparr>app_ActiveDeployID := 11\<rparr>)
   \<and> entries (cache (snd (handleCreateRollback server0 (rollback_request 1 11)))) 12 = None
   \<and> calls (snd (handleCreateRollback server0 (rollback_request 1 11)))
       = [StoreGetApplication 1, StoreGetDeploy 11, StoreUpdateApplication 1 11,
          CacheDelete 12]"
proof -
  let ?r = "rollback_request 1 11"
  have url: "URLParam_appID ?r = Inr 1"
    and body: "Decode_CreateRollbackParams ?r = Inr \<lparr>DeployID = 11\<rparr>"
    by (simp_all add: rollback_request_def)
  have app: "apps (store server0) 1 = Some appA" "app_ActiveDeployID appA = 12"
    and tgt: "deploys (store server0) 11 = Some deploy11" "deploy_ID deploy11 = 11"
    and fine: "failing (store server0) = {}" "\<not> evict_fails (cache server0)"
    and held: "entries (cache server0) 12 = Some [8]" "calls server0 = []"
    by (simp_all add: server0_def store0_def cache0_def appA_def deploy11_def)
  have run: "handleCreateRollback server0 ?r
               = (fst (handleCreateRollback server0 ?r), snd (handleCreateRollback server0 ?r))"
    by simp
  from rollback_correct [OF url body _ app tgt run] fine held url body app tgt
  show ?thesis by (simp add: Delete_def)
qed

text \<open>
  C4. The application exists and the request names a target that is no deploy of the
  store: the rollback is answered with 404, the store (and with it the application's
  active deploy) and the cache are what they were, and the only calls made are the two
  lookups: no update, no eviction.
\<close>

theorem rollback_unknown_target:
  assumes url: "URLParam_appID r = Inr A"
    and get: "GetApplication (store s) A = Inr app"
    and body: "Decode_CreateRollbackParams r = Inr p"
    and absent: "deploys (store s) (DeployID p) = None"
  shows "Status (fst (handleCreateRollback s r)) = StatusNotFound
       \<and> store (snd (handleCreateRollback s r)) = store s
       \<and> cache (snd (handleCreateRollback s r)) = cache s
       \<and> GetApplication (store (snd (handleCreateRollback s r))) A = Inr app
       \<and> calls (snd (handleCreateRollback s r))
           = calls s @ [StoreGetApplication A, StoreGetDeploy (DeployID p)]"
proof -
  from GetDeploy_absent [OF absent]
  obtain err where getd: "GetDeploy (store s) (DeployID p) = Inl err" ..
  have "handleCreateRollback s r =
          (writeJSON StatusNotFound (ErrorResponse err),
           s\<lparr>calls := calls s @ [StoreGetApplication A, StoreGetDeploy (DeployID p)]\<rparr>)"
    using url get body getd
    by (simp add: handleCreateRollback_def store_GetApplication_eq store_GetDeploy_eq)
  with get show ?thesis by simp
qed

theorem rollback_unknown_target_witness:
  "URLParam_appID (rollback_request 1 99) = Inr 1
   \<and> GetApplication (store server0) 1 = Inr appA
   \<and> Decode_CreateRollbackParams (rollback_request 1 99) = Inr \<lparr>DeployID = 99\<rparr>
   \<and> deploys (store server0) 99 = None
   \<and> Status (fst (handleCreateRollback server0 (rollback_request 1 99))) = StatusNotFound
   \<and> store (snd (handleCreateRollback server0 (rollback_request 1 99))) = store0
   \<and> cache (snd (handleCreateRollback server0 (rollback_request 1 99))) = cache0
   \<and> app_ActiveDeployID appA = 12
   \<and> calls (snd (handleCreateRollback server0 (rollback_request 1 99)))
       = [StoreGetApplication 1, StoreGetDeploy 99]"
proof -
  let ?r = "rollback_request 1 99"
  have url: "URLParam_appID ?r = Inr 1"
    and body: "Decode_CreateRollbackParams ?r = Inr \<lparr>DeployID = 99\<rparr>"
    by (simp_all add: rollback_request_def)
  have get: "GetApplication (store server0) 1 = Inr appA"
    by (simp add: GetApplication_def server0_def store0_def)
  have absent: "deploys (store server0) (DeployID \<lparr>DeployID = 99\<rparr>) = None"
    by (simp add: server0_def store0_def)
  have rest: "store server0 = store0" "cache server0 = cache0" "calls server0 = []"
    "app_ActiveDeployID appA = 12"
    by (simp_all add: server0_def appA_def)
  from rollback_unknown_target [OF url get body absent] url get body absent rest
  show ?thesis by simp
qed

text \<open>
  C7. A rollback that names an application absent from the store should fail as not
  found. The handler answers 400 (bad request) to the store's not-found error, where
  the deploy handler and the application handler answer 404 to the same error.
\<close>

theorem rollback_absent_application_bad_request:
  "GetApplication (store server0) 99 = Inl ErrNotFound
   \<and> fst (handleCreateRollback server0 (rollback_request 99 11))
       = writeJSON StatusBadRequest (ErrorResponse ErrNotFound)
   \<and> fst (handleCreateDeploy env0 server0 (deploy_request 99 (Inr [4, 2])))
       = writeJSON StatusNotFound (ErrorResponse ErrNotFound)
   \<and> fst (handleGetApplication server0 (deploy_request 99 (Inr [])))
       = writeJSON StatusNotFound (ErrorResponse ErrNotFound)"
  by (simp add: handleCreateRollback_def handleCreateDeploy_def handleGetApplication_def
      store_GetApplication_eq GetApplication_def server0_def store0_def
      rollback_request_def deploy_request_def)

text \<open>
  C9. When the lookups and the store's pointer update of a rollback succeed, the
  answer is 200 with the id of the target deploy, whatever the cache is and whatever
  its \<open>Delete\<close> reports; the store holds the update.
\<close>

theorem rollback_ignores_cache_outcome:
  assumes url: "URLParam_appID r = Inr A"
    and get: "GetApplication (store s) A = Inr app"
    and body: "Decode_CreateRollbackParams r = Inr p"
    and getd: "GetDeploy (store s) (DeployID p) = Inr d"
    and up: "UpdateApplication (store s) A \<lparr>ActiveDeployID = deploy_ID d\<rparr> = Inr st"
  shows "fst (handleCreateRollback (s\<lparr>cache := c\<rparr>) r)
           = writeJSON StatusOK (RollbackJSON (deploy_ID d))
       \<and> store (snd (handleCreateRollback (s\<lparr>cache := c\<rparr>) r)) = st
       \<and> cache (snd (handleCreateRollback (s\<lparr>cache := c\<rparr>) r))
           = snd (Delete c (app_ActiveDeployID app))"
proof -
  let ?s = "s\<lparr>cache := c\<rparr>"
  have same: "store ?s = store s" by simp
  from get getd up have "GetApplication (store ?s) A = Inr app"
    and "GetDeploy (store ?s) (DeployID p) = Inr d"
    and "UpdateApplication (store ?s) A \<lparr>ActiveDeployID = deploy_ID d\<rparr> = Inr st"
    by (simp_all only: same)
  with handleCreateRollback_run [of r A ?s app p d] url body
  show ?thesis by simp
qed

theorem rollback_ignores_cache_outcome_witness:
  "URLParam_appID (rollback_request 1 11) = Inr 1
   \<and> GetApplication (store server0) 1 = Inr appA
   \<and> Decode_CreateRollbackParams (rollback_request 1 11) = Inr \<lparr>DeployID = 11\<rparr>
   \<and> GetDeploy (store server0) 11 = Inr deploy11
   \<and> UpdateApplication (store server0) 1 \<lparr>ActiveDeployID = 11\<rparr>
       = Inr (store0\<lparr>apps := (apps store0)(1 \<mapsto> appA\<lparr>app_ActiveDeployID := 11\<rparr>)\<rparr>)
   \<and> Delete (cache0\<lparr>evict_fails := True\<rparr>) 12 = (Some ErrCache, cache0\<lparr>evict_fails := True\<rparr>)
   \<and> fst (handleCreateRollback (server0\<lparr>cache := cache0\<lparr>evict_fails := True\<rparr>\<rparr>)
            (rollback_request 1 11))
       = writeJSON StatusOK (RollbackJSON 11)
   \<and> entries (cache (snd (handleCreateRollback
                             (server0\<lparr>cache := cache0\<lparr>evict_fails := True\<rparr>\<rparr>)
                             (rollback_request 1 11)))) 12 = Some [8]"
proof -
  let ?r = "rollback_request 1 11"
  let ?c = "cache0\<lparr>evict_fails := True\<rparr>"
  let ?st = "store0\<lparr>apps := (apps store0)(1 \<mapsto> appA\<lparr>app_ActiveDeployID := 11\<rparr>)\<rparr>"
  have url: "URLParam_appID ?r = Inr 1"
    and body: "Decode_CreateRollbackParams ?r = Inr \<lparr>DeployID = 11\<rparr>"
    by (simp_all add: rollback_request_def)
  have get: "GetApplication (store server0) 1 = Inr appA"
    by (simp add: GetApplication_def server0_def store0_def)
  have getd: "GetDeploy (store server0) (DeployID \<lparr>DeployID = 11\<rparr>) = Inr deploy11"
    by (simp add: GetDeploy_def server0_def store0_def)
  have up: "UpdateApplication (store server0) 1 \<lparr>ActiveDeployID = deploy_ID deploy11\<rparr> = Inr ?st"
    by (simp add: UpdateApplication_def server0_def store0_def deploy11_def)
  have fails: "Delete ?c 12 = (Some ErrCache, ?c)"
    by (simp add: Delete_def)
  have facts: "deploy_ID deploy11 = 11" "app_ActiveDeployID appA = 12"
    "entries cache0 12 = Some [8]"
    by (simp_all add: deploy11_def appA_def cache0_def)
  from rollback_ignores_cache_outcome [OF url get body getd up, of ?c]
    url get body getd up fails facts
  show ?thesis by simp
qed

section \<open>Deploy creation\<close>



text \<open>
  C5. In a deploy request, the new deploy was persisted and the update of the active
  deploy pointer then fails: the caller gets the error (with 422), the deploy stays in
  the store under its id, and the applications, the pointer of \<open>A\<close> among them, are
  what they were before the request.
\<close>

theorem create_deploy_pointer_update_fails:
  assumes url: "URLParam_appID r = Inr A"
    and get: "GetApplication (store s) A = Inr app"
    and rd: "ReadAll_Body r = Inr b"
    and cr: "CreateDeploy (store s) (NewDeploy env app b) = Inr st1"
    and up: "UpdateApplication st1 A \<lparr>ActiveDeployID = deploy_ID (NewDeploy env app b)\<rparr>
               = Inl err"
  shows "fst (handleCreateDeploy env s r)
           = writeJSON StatusUnprocessableEntity (ErrorResponse err)
       \<and> deploys (store (snd (handleCreateDeploy env s r))) (deploy_ID (NewDeploy env app b))
           = Some (NewDeploy env app b)
       \<and> apps (store (snd (handleCreateDeploy env s r))) A = Some app
       \<and> apps (store (snd (handleCreateDeploy env s r))) = apps (store s)"
proof -
  from handleCreateDeploy_run [OF url get rd cr] up
  have run: "handleCreateDeploy env s r =
          (writeJSON StatusUnprocessableEntity (ErrorResponse err),
           s\<lparr>store := st1,
             calls := calls s @ [StoreGetApplication A,
                                 StoreCreateDeploy (deploy_ID (NewDeploy env app b)),
                                 StoreUpdateApplication A (deploy_ID (NewDeploy env app b))]\<rparr>)"
    by simp
  from CreateDeploy_Inr [OF cr]
  have st1: "st1 = store s\<lparr>deploys := (deploys (store s))
                 (deploy_ID (NewDeploy env app b) \<mapsto> NewDeploy env app b)\<rparr>" .
  from GetApplication_Inr(1) [OF get] show ?thesis
    by (simp add: run st1)
qed

theorem create_deploy_pointer_update_fails_witness:
  "URLParam_appID (deploy_request 1 (Inr [4, 2])) = Inr 1
   \<and> GetApplication (store (server0\<lparr>store := store0\<lparr>failing := {OpUpdateApplication}\<rparr>\<rparr>)) 1
       = Inr appA
   \<and> ReadAll_Body (deploy_request 1 (Inr [4, 2])) = Inr [4, 2]
   \<and> CreateDeploy (store0\<lparr>failing := {OpUpdateApplication}\<rparr>) (NewDeploy env0 appA [4, 2])
       = Inr (store0\<lparr>failing := {OpUpdateApplication},
                     deploys := (deploys store0)(13 \<mapsto> NewDeploy env0 appA [4, 2])\<rparr>)
   \<and> UpdateApplication
         (store0\<lparr>failing := {OpUpdateApplication},
                 deploys := (deploys store0)(13 \<mapsto> NewDeploy env0 appA [4, 2])\<rparr>)
         1 \<lparr>ActiveDeployID = 13\<rparr> = Inl ErrStore
   \<and> fst (handleCreateDeploy env0
            (server0\<lparr>store := store0\<lparr>failing := {OpUpdateApplication}\<rparr>\<rparr>)
            (deploy_request 1 (Inr [4, 2])))
       = writeJSON StatusUnprocessableEntity (ErrorResponse ErrStore)
   \<and> deploys (store (snd (handleCreateDeploy env0
            (server0\<lparr>store := store0\<lparr>failing := {OpUpdateApplication}\<rparr>\<rparr>)
            (deploy_request 1 (Inr [4, 2]))))) 13
       = Some (NewDeploy env0 appA [4, 2])
   \<and> apps (store (snd (handleCreateDeploy env0
            (server0\<lparr>store := store0\<lparr>failing := {OpUpdateApplication}\<rparr>\<rparr>)
            (deploy_request 1 (Inr [4, 2]))))) 1
       = Some appA
   \<and> app_ActiveDeployID appA = 12"
proof -
  let ?r = "deploy_request 1 (Inr [4, 2])"
  let ?st = "store0\<lparr>failing := {OpUpdateApplication}\<rparr>"
  let ?s = "server0\<lparr>store := ?st\<rparr>"
  let ?D = "NewDeploy env0 appA [4, 2]"
  let ?st1 = "store0\<lparr>failing := {OpUpdateApplication},
                     deploys := (deploys store0)(13 \<mapsto> ?D)\<rparr>"
  have id: "deploy_ID ?D = 13"
    by (simp add: NewDeploy_def env0_def)
  have url: "URLParam_appID ?r = Inr 1" and rd: "ReadAll_Body ?r = Inr [4, 2]"
    by (simp_all add: deploy_request_def)
  have get: "GetApplication (store ?s) 1 = Inr appA"
    by (simp add: GetApplication_def store0_def)
  have cr: "CreateDeploy (store ?s) ?D = Inr ?st1"
    by (simp add: CreateDeploy_def id store0_def)
  have up: "UpdateApplication ?st1 1 \<lparr>ActiveDeployID = deploy_ID ?D\<rparr> = Inl ErrStore"
    by (simp add: UpdateApplication_def)
  have ptr: "app_ActiveDeployID appA = 12"
    by (simp add: appA_def)
  from create_deploy_pointer_update_fails [OF url get rd cr up] url get rd cr up ptr
  show ?thesis by (simp add: id store0_def)
qed

text \<open>
  C8. The deploy handler never touches the cache: on every path the cache after the
  request is the cache before it, the history holds no further call to the cache, and
  running the handler with any other cache gives the same answer and the same server
  but for that cache.
\<close>

theorem create_deploy_never_touches_cache:
  "cache (snd (handleCreateDeploy env s r)) = cache s
   \<and> filter is_cache_call (calls (snd (handleCreateDeploy env s r)))
       = filter is_cache_call (calls s)
   \<and> handleCreateDeploy env (s\<lparr>cache := c\<rparr>) r
       = (fst (handleCreateDeploy env s r), (snd (handleCreateDeploy env s r))\<lparr>cache := c\<rparr>)"
proof (cases "URLParam_appID r")
  case (Inl err)
  then show ?thesis by (simp add: handleCreateDeploy_def)
next
  case url: (Inr A)
  show ?thesis
  proof (cases "GetApplication (store s) A")
    case (Inl err)
    with url show ?thesis
      by (simp add: handleCreateDeploy_def store_GetApplication_eq)
  next
    case get: (Inr app)
    show ?thesis
    proof (cases "ReadAll_Body r")
      case (Inl err)
      with url get show ?thesis
        by (simp add: handleCreateDeploy_def store_GetApplication_eq)
    next
      case rd: (Inr b)
      show ?thesis
      proof (cases "CreateDeploy (store s) (NewDeploy env app b)")
        case (Inl err)
        with url get rd show ?thesis
          by (simp add: handleCreateDeploy_def store_GetApplication_eq store_CreateDeploy_def)
      next
        case cr: (Inr st1)
        have "store (s\<lparr>cache := c\<rparr>) = store s" by simp
        with get cr have get': "GetApplication (store (s\<lparr>cache := c\<rparr>)) A = Inr app"
          and cr': "CreateDeploy (store (s\<lparr>cache := c\<rparr>)) (NewDeploy env app b) = Inr st1"
          by simp_all
        show ?thesis
          unfolding handleCreateDeploy_run [OF url get rd cr]
            handleCreateDeploy_run [OF url get' rd cr']
          by (simp split: sum.split)
      qed
    qed
  qed
qed

text \<open>
  C10. In a deploy request, the application was found and reading the body fails: the
  answer is 404 with the read error, the store is unchanged (no deploy was added, the
  application is as it was), and the lookup is the only call made.
\<close>

theorem create_deploy_body_unreadable:
  assumes url: "URLParam_appID r = Inr A"
    and get: "GetApplication (store s) A = Inr app"
    and rd: "ReadAll_Body r = Inl err"
  shows "fst (handleCreateDeploy env s r) = writeJSON StatusNotFound (ErrorResponse err)
       \<and> store (snd (handleCreateDeploy env s r)) = store s
       \<and> cache (snd (handleCreateDeploy env s r)) = cache s
       \<and> GetApplication (store (snd (handleCreateDeploy env s r))) A = Inr app
       \<and> calls (snd (handleCreateDeploy env s r)) = calls s @ [StoreGetApplication A]"
  using assms
  by (simp add: handleCreateDeploy_def store_GetApplication_eq)

theorem create_deploy_body_unreadable_witness:
  "URLParam_appID (deploy_request 1 (Inl (LibraryError ''unexpected EOF''))) = Inr 1
   \<and> GetApplication (store server0) 1 = Inr appA
   \<and> ReadAll_Body (deploy_request 1 (Inl (LibraryError ''unexpected EOF'')))
       = Inl (LibraryError ''unexpected EOF'')
   \<and> fst (handleCreateDeploy env0 server0
            (deploy_request 1 (Inl (LibraryError ''unexpected EOF''))))
       = writeJSON StatusNotFound (ErrorResponse (LibraryError ''unexpected EOF''))
   \<and> store (snd (handleCreateDeploy env0 server0
            (deploy_request 1 (Inl (LibraryError ''unexpected EOF''))))) = store0
   \<and> deploys store0 (uuid_New env0) = None
   \<and> app_ActiveDeployID appA = 12"
proof -
  let ?r = "deploy_request 1 (Inl (LibraryError ''unexpected EOF''))"
  have url: "URLParam_appID ?r = Inr 1"
    and rd: "ReadAll_Body ?r = Inl (LibraryError ''unexpected EOF'')"
    by (simp_all add: deploy_request_def)
  have get: "GetApplication (store server0) 1 = Inr appA"
    by (simp add: GetApplication_def server0_def store0_def)
  have rest: "store server0 = store0" "deploys store0 (uuid_New env0) = None"
    "app_ActiveDeployID appA = 12"
    by (simp_all add: server0_def store0_def env0_def appA_def)
  from create_deploy_body_unreadable [OF url get rd, of env0] url get rd rest
  show ?thesis by simp
qed

section \<open>Validation of the application name\<close>

text \<open>
  C6. \<open>validate\<close> accepts a name exactly when its length is between 3 and 20, and
  rejects every other name with the one message; that message states 40 as the upper
  bound, not the 20 that the check enforces. A request whose name is rejected is
  answered with 400 and that message, and the store is not called.
\<close>

theorem validate_bound_and_message:
  "(validate p = None) = (3 \<le> length (Name p) \<and> length (Name p) \<le> 20)
   \<and> (validate p = None \<or> validate p = Some (Errorf validate_message))
   \<and> stated_upper_bound validate_message = Some 40
   \<and> stated_upper_bound validate_message \<noteq> Some 20
   \<and> (Decode_CreateAppParams r = Inr p \<and> validate p \<noteq> None \<longrightarrow>
        handleCreateApp env s r
          = (writeJSON StatusBadRequest (ErrorResponse (Errorf validate_message)), s))"
proof -
  have check: "(validate p = None) = (3 \<le> length (Name p) \<and> length (Name p) \<le> 20)"
    by (auto simp: validate_def)
  have msg: "validate p = None \<or> validate p = Some (Errorf validate_message)"
    by (simp add: validate_def)
  have stated: "stated_upper_bound validate_message = Some 40"
    by (simp add: stated_upper_bound_def validate_message_def leading_number_def is_digit_def)
  have handler: "handleCreateApp env s r
          = (writeJSON StatusBadRequest (ErrorResponse (Errorf validate_message)), s)"
    if "Decode_CreateAppParams r = Inr p" "validate p \<noteq> None"
    using that msg by (auto simp: handleCreateApp_def)
  from check msg stated handler show ?thesis by simp
qed

theorem validate_bound_and_message_witness:
  "length ''abcdefghijklmnopqrstuvwxyz'' = 26
   \<and> Decode_CreateAppParams (create_app_request ''abcdefghijklmnopqrstuvwxyz'')
       = Inr \<lparr>Name = ''abcdefghijklmnopqrstuvwxyz'', Environment = Map.empty\<rparr>
   \<and> validate \<lparr>Name = ''abcdefghijklmnopqrstuvwxyz'', Environment = Map.empty\<rparr>
       = Some (Errorf validate_message)
   \<and> stated_upper_bound validate_message = Some 40
   \<and> validate \<lparr>Name = ''abcdefghijklmnopqrst'', Environment = Map.empty\<rparr> = None
   \<and> handleCreateApp env0 server0 (create_app_request ''abcdefghijklmnopqrstuvwxyz'')
       = (writeJSON StatusBadRequest (ErrorResponse (Errorf validate_message)), server0)"
proof -
  let ?p = "\<lparr>Name = ''abcdefghijklmnopqrstuvwxyz'', Environment = Map.empty\<rparr>"
  let ?q = "\<lparr>Name = ''abcdefghijklmnopqrst'', Environment = Map.empty\<rparr>"
  let ?r = "create_app_request ''abcdefghijklmnopqrstuvwxyz''"
  have dec: "Decode_CreateAppParams ?r = Inr ?p"
    by (simp add: create_app_request_def)
  have len: "length (Name ?p) = 26" "length (Name ?q) = 20"
    by simp_all
  from validate_bound_and_message [of ?p ?r env0 server0]
    validate_bound_and_message [of ?q ?r env0 server0] dec len
  show ?thesis by auto
qed

end
